theory Spec2Isabelle
  imports Main
begin

section \<open>JavaScript values at the JSON boundary\<close>

text \<open>
  The dashboards receive jobs and findings as parsed JSON and read their fields through
  \<open>any\<close>-typed accesses. A string is a list of characters (code units below 256);
  a number is a finite integer-valued double, printed in plain decimal (job ids, ports,
  HTTP statuses and lengths are such numbers); \<open>NaN\<close> appears only as the failure
  of \<open>parseInt\<close> and is modelled there.
\<close>

datatype jsval =
    JUndefined
  | JNull
  | JBool bool
  | JNum int
  | JStr string
  | JArr "jsval list"

definition digit_char :: "nat \<Rightarrow> char" where
  "digit_char d = char_of (48 + d)"

fun decimal :: "nat \<Rightarrow> string" where
  "decimal n = (if n < 10 then [digit_char n] else decimal (n div 10) @ [digit_char (n mod 10)])"

declare decimal.simps [simp del]

definition decimal_int :: "int \<Rightarrow> string" where
  "decimal_int i = (if i < 0 then CHR ''-'' # decimal (nat (- i)) else decimal (nat i))"

text \<open>\<open>Array.prototype.join\<close> on strings already converted.\<close>

fun join :: "string \<Rightarrow> string list \<Rightarrow> string" where
  "join sep [] = []"
| "join sep [x] = x"
| "join sep (x # y # ys) = x @ sep @ join sep (y # ys)"

text \<open>\<open>String(v)\<close>; inside an array \<open>null\<close> and \<open>undefined\<close> print as the empty string.\<close>

fun js_String :: "jsval \<Rightarrow> string" where
  "js_String JUndefined = ''undefined''"
| "js_String JNull = ''null''"
| "js_String (JBool b) = (if b then ''true'' else ''false'')"
| "js_String (JNum n) = decimal_int n"
| "js_String (JStr s) = s"
| "js_String (JArr xs) =
     join '','' (map (\<lambda>x. if x = JUndefined \<or> x = JNull then [] else js_String x) xs)"

text \<open>Truthiness, \<open>a || b\<close> and \<open>a ?? b\<close>.\<close>

fun truthy :: "jsval \<Rightarrow> bool" where
  "truthy JUndefined = False"
| "truthy JNull = False"
| "truthy (JBool b) = b"
| "truthy (JNum n) = (n \<noteq> 0)"
| "truthy (JStr s) = (s \<noteq> [])"
| "truthy (JArr xs) = True"

definition js_or :: "jsval \<Rightarrow> jsval \<Rightarrow> jsval" where
  "js_or a b = (if truthy a then a else b)"

definition nullish :: "jsval \<Rightarrow> bool" where
  "nullish v = (v = JUndefined \<or> v = JNull)"

definition js_coalesce :: "jsval \<Rightarrow> jsval \<Rightarrow> jsval" where
  "js_coalesce a b = (if nullish a then b else a)"

section \<open>Strings\<close>

text \<open>
  White space as \<open>trim\<close>, \<open>parseInt\<close> and the regular expression class
  \<open>\s\<close> read it: tab, line feed, vertical tab, form feed, carriage return, space and
  the no-break space.
\<close>

definition is_space :: "char \<Rightarrow> bool" where
  "is_space c = (c = CHR 0x09 \<or> c = CHR 0x0A \<or> c = CHR 0x0B \<or> c = CHR 0x0C
     \<or> c = CHR 0x0D \<or> c = CHR 0x20 \<or> c = CHR 0xA0)"

definition trim :: "string \<Rightarrow> string" where
  "trim s = rev (dropWhile is_space (rev (dropWhile is_space s)))"

fun startsWith :: "string \<Rightarrow> string \<Rightarrow> bool" where
  "startsWith s [] = True"
| "startsWith [] (p # ps) = False"
| "startsWith (c # cs) (p # ps) = (c = p \<and> startsWith cs ps)"

fun includes_str :: "string \<Rightarrow> string \<Rightarrow> bool" where
  "includes_str [] t = (t = [])"
| "includes_str (c # cs) t = (startsWith (c # cs) t \<or> includes_str cs t)"

definition lower_char :: "char \<Rightarrow> char" where
  "lower_char c =
     (let n = of_char c :: nat in
      if (65 \<le> n \<and> n \<le> 90) \<or> (192 \<le> n \<and> n \<le> 222 \<and> n \<noteq> 215)
      then char_of (n + 32) else c)"

definition toLowerCase :: "string \<Rightarrow> string" where
  "toLowerCase s = map lower_char s"

text \<open>Puts a character in front of the first piece of a split.\<close>

fun cons_first :: "char \<Rightarrow> string list \<Rightarrow> string list" where
  "cons_first c [] = [[c]]"
| "cons_first c (l # ls) = (c # l) # ls"

text \<open>\<open>s.split(sep)\<close> for a one-character separator.\<close>

fun split_char :: "char \<Rightarrow> string \<Rightarrow> string list" where
  "split_char sep [] = [[]]"
| "split_char sep (c # cs) =
     (if c = sep then [] # split_char sep cs else cons_first c (split_char sep cs))"

text \<open>\<open>s.split(/\r?\n/)\<close>: a line feed, or a carriage return directly before one, separates.\<close>

fun split_lines :: "string \<Rightarrow> string list" where
  "split_lines [] = [[]]"
| "split_lines (c # cs) =
     (if c = CHR 0x0A then [] # split_lines cs
      else if c = CHR 0x0D \<and> cs \<noteq> [] \<and> hd cs = CHR 0x0A then [] # split_lines (tl cs)
      else cons_first c (split_lines cs))"

text \<open>\<open>s.split(/[\s,]+/)\<close>: every maximal run of white space and commas separates.\<close>

definition is_sep :: "char \<Rightarrow> bool" where
  "is_sep c = (is_space c \<or> c = CHR '','')"

function split_seps :: "string \<Rightarrow> string list" where
  "split_seps [] = [[]]"
| "split_seps (c # cs) =
     (if is_sep c then [] # split_seps (dropWhile is_sep cs)
      else cons_first c (split_seps cs))"
  by pat_completeness auto
termination
  by (relation "measure length") (auto simp: length_dropWhile_le less_Suc_eq_le)

text \<open>\<open>.filter(Boolean)\<close> on strings keeps the non-empty ones.\<close>

definition filter_Boolean :: "string list \<Rightarrow> string list" where
  "filter_Boolean xs = filter (\<lambda>s. s \<noteq> []) xs"

text \<open>
  \<open>parseInt(s, 10)\<close>: leading white space, an optional sign, then the longest run of
  decimal digits; \<open>None\<close> is \<open>NaN\<close> (no digit). Digit strings beyond the range of a
  double are outside the model.
\<close>

definition is_digit :: "char \<Rightarrow> bool" where
  "is_digit c = (48 \<le> (of_char c :: nat) \<and> (of_char c :: nat) \<le> 57)"

definition digits_value :: "string \<Rightarrow> nat" where
  "digits_value ds = foldl (\<lambda>a c. 10 * a + ((of_char c :: nat) - 48)) 0 ds"

definition parseInt10 :: "string \<Rightarrow> int option" where
  "parseInt10 s =
     (let t = dropWhile is_space s;
          neg = (t \<noteq> [] \<and> hd t = CHR ''-'');
          r = (if t \<noteq> [] \<and> (hd t = CHR ''-'' \<or> hd t = CHR ''+'') then tl t else t);
          ds = takeWhile is_digit r
      in if ds = [] then None
         else Some (if neg then - int (digits_value ds) else int (digits_value ds)))"

section \<open>Jobs and findings (\<open>utils/api.ts\<close>)\<close>

datatype job_type = subdomains | ports | dirs

datatype job_state = running | paused | completed | cancelled | failed

text \<open>
  \<open>interface Job\<close>. The optional fields arrive as JSON values; \<open>progress\<close> (a
  fraction shown in the progress bar) and the \<open>config\<close> and \<open>error\<close> of
  \<open>JobDetails\<close> are read by no function modelled here and are left out.
\<close>

record job =
  id' :: jsval
  type' :: job_type
  state :: job_state
  created_at :: jsval
  targets :: jsval
  domain :: jsval
  base_url :: jsval

text \<open>
  \<open>interface Finding\<close>, with the fields the dashboard also reads through \<open>any\<close>
  (\<open>kind\<close>, \<open>code\<close>, \<open>http_status\<close>, \<open>content_type\<close>, \<open>redirected_to\<close>).
  A field the JSON object lacks is \<open>JUndefined\<close>.
\<close>

record finding =
  job_id :: jsval
  kind :: jsval
  subdomain :: jsval
  resolved_ips :: jsval
  first_seen :: jsval
  last_seen :: jsval
  target :: jsval
  port :: jsval
  status :: jsval
  code :: jsval
  http_status :: jsval
  banner :: jsval
  url :: jsval
  length' :: jsval
  title :: jsval
  content_type :: jsval
  redirected_to :: jsval

section \<open>The job details modal (\<open>components/Dashboard.tsx\<close>, \<open>JobDetailsModal\<close>)\<close>

record dir_filter =
  filter_text :: string
  filter_status :: string

record modal_state =
  m_job :: "job option"
  m_findings :: "finding list"
  m_dirFilter :: dir_filter

text \<open>The state the modal starts with: the job passed in, no findings, an empty filter.\<close>

definition modal_init :: "job option \<Rightarrow> modal_state" where
  "modal_init initial =
     \<lparr>m_job = initial, m_findings = [], m_dirFilter = \<lparr>filter_text = [], filter_status = []\<rparr>\<rparr>"

definition expectedKind :: "job_type \<Rightarrow> string option" where
  "expectedKind t =
     (if t = dirs then Some ''dir''
      else if t = ports then Some ''port''
      else if t = subdomains then Some ''subdomain''
      else None)"

text \<open>The defensive filter of \<open>refresh\<close>; \<open>findingsData || []\<close> reads a \<open>null\<close> body as no findings.\<close>

definition purified :: "jsval \<Rightarrow> job \<Rightarrow> finding list option \<Rightarrow> finding list" where
  "purified jobId jobData findingsData =
     filter
       (\<lambda>f. js_String (js_coalesce (job_id f) (JStr [])) = js_String jobId
            \<and> (case expectedKind (type' jobData) of
                  None \<Rightarrow> True
                | Some k \<Rightarrow> kind f = JStr k))
       (case findingsData of None \<Rightarrow> [] | Some fs \<Rightarrow> fs)"

text \<open>
  \<open>refresh\<close>: both requests run together; when either fails (or is aborted) the state
  is left as it was, otherwise the job and the purified findings are stored.
\<close>

definition refresh :: "jsval \<Rightarrow> (job \<times> finding list option) option \<Rightarrow> modal_state \<Rightarrow> modal_state" where
  "refresh jobId fetched st =
     (case fetched of
        None \<Rightarrow> st
      | Some (jobData, findingsData) \<Rightarrow>
          st\<lparr>m_job := Some jobData, m_findings := purified jobId jobData findingsData\<rparr>)"

text \<open>The status bucket of a row, as the table filter computes it from \<open>f.status\<close>.\<close>

definition status_number :: "jsval \<Rightarrow> int option" where
  "status_number raw =
     (case raw of
        JNum n \<Rightarrow> Some n
      | _ \<Rightarrow> parseInt10 (js_String (js_coalesce raw (JStr []))))"

definition bucket :: "int option \<Rightarrow> string" where
  "bucket s =
     (case s of
        None \<Rightarrow> []
      | Some n \<Rightarrow>
          if n \<ge> 500 then ''5xx''
          else if n \<ge> 400 then ''4xx''
          else if n \<ge> 300 then ''3xx''
          else ''2xx'')"

definition statusOk :: "dir_filter \<Rightarrow> finding \<Rightarrow> bool" where
  "statusOk flt f =
     (filter_status flt = [] \<or> filter_status flt = bucket (status_number (status f)))"

definition textOk :: "dir_filter \<Rightarrow> finding \<Rightarrow> bool" where
  "textOk flt f =
     (let t = toLowerCase (trim (filter_text flt)) in
      t = [] \<or>
      includes_str
        (toLowerCase
          (join '' ''
            [js_String (js_or (url f) (JStr [])),
             js_String (js_or (title f) (JStr [])),
             js_String (js_or (content_type f) (JStr []))]))
        t)"

text \<open>The rows of the findings table: every finding, or for a directory job those the filter passes.\<close>

definition shown_findings :: "modal_state \<Rightarrow> finding list" where
  "shown_findings st =
     (if map_option type' (m_job st) \<noteq> Some dirs then m_findings st
      else filter (\<lambda>f. statusOk (m_dirFilter st) f \<and> textOk (m_dirFilter st) f) (m_findings st))"


text \<open>The JSON object \<open>{}\<close> read as a finding: every field is absent.\<close>

definition empty_finding :: finding where
  "empty_finding =
     \<lparr>job_id = JUndefined, kind = JUndefined, subdomain = JUndefined, resolved_ips = JUndefined,
      first_seen = JUndefined, last_seen = JUndefined, target = JUndefined, port = JUndefined,
      status = JUndefined, code = JUndefined, http_status = JUndefined, banner = JUndefined,
      url = JUndefined, length' = JUndefined, title = JUndefined, content_type = JUndefined,
      redirected_to = JUndefined\<rparr>"

section \<open>Dates (\<open>utils/date.ts\<close>)\<close>

text \<open>
  A \<open>Date\<close> object is what its getters return: it is invalid (\<open>getTime()\<close> is
  \<open>NaN\<close>), or it has the calendar fields of its instant in local time and in UTC.
  \<open>getMonth\<close> counts from 0. The getters return non-negative integers, but the year,
  which may be negative.
\<close>

record date_fields =
  getFullYear :: int
  getMonth :: nat
  getDate :: nat
  getHours :: nat
  getMinutes :: nat
  getSeconds :: nat

datatype jsdate = InvalidDate | ValidDate date_fields date_fields

text \<open>\<open>DateLike\<close>: a JSON value (string, number, \<open>null\<close>, \<open>undefined\<close>) or a \<open>Date\<close>.\<close>

datatype dateLike = Val jsval | DateObj jsdate

record format_opts =
  utc :: "bool option"
  fallback :: "string option"

definition pad :: "nat \<Rightarrow> string" where
  "pad n = replicate (2 - length (decimal n)) (CHR ''0'') @ decimal n"

text \<open>
  \<open>formatDateTime\<close>. The constructor \<open>new Date(value)\<close> belongs to the JavaScript
  runtime and is the parameter \<open>newDate\<close>.
\<close>

definition formatDateTime ::
  "(jsval \<Rightarrow> jsdate) \<Rightarrow> dateLike \<Rightarrow> format_opts option \<Rightarrow> string" where
  "formatDateTime newDate v opts =
     (let utc_flag = (case opts of None \<Rightarrow> False
                      | Some os \<Rightarrow> (case utc os of None \<Rightarrow> False | Some b \<Rightarrow> b));
          fb = (case opts of None \<Rightarrow> ''N/A''
                | Some os \<Rightarrow> (case fallback os of None \<Rightarrow> ''N/A'' | Some s \<Rightarrow> s))
      in if v = Val JNull \<or> v = Val JUndefined then fb
         else
           (case (case v of DateObj d \<Rightarrow> d | Val x \<Rightarrow> newDate x) of
              InvalidDate \<Rightarrow> fb
            | ValidDate loc u \<Rightarrow>
                (let d = (if utc_flag then u else loc) in
                 decimal_int (getFullYear d) @ ''-'' @ pad (getMonth d + 1) @ ''-'' @
                 pad (getDate d) @ '' '' @ pad (getHours d) @ '':'' @ pad (getMinutes d) @
                 '':'' @ pad (getSeconds d) @ (if utc_flag then '' UTC'' else []))))"

section \<open>Reports (\<open>components/Dashboard.tsx\<close>, \<open>Dashboard\<close>)\<close>

text \<open>
  The labels hold two characters outside Latin-1, the bullet (U+2022) and the em dash
  (U+2014); they stand here as their UTF-8 bytes, as in the exported file.
\<close>

definition bullet :: string where
  "bullet = [CHR 0xE2, CHR 0x80, CHR 0xA2]"

definition em_dash :: string where
  "em_dash = [CHR 0xE2, CHR 0x80, CHR 0x94]"

text \<open>\<open>v[0]\<close>: the first element of an array, the first character of a string.\<close>

definition js_index0 :: "jsval \<Rightarrow> jsval" where
  "js_index0 v =
     (case v of
        JArr (x # xs) \<Rightarrow> x
      | JStr (c # cs) \<Rightarrow> JStr [c]
      | _ \<Rightarrow> JUndefined)"

definition js_and :: "jsval \<Rightarrow> jsval \<Rightarrow> jsval" where
  "js_and a b = (if truthy a then b else a)"

definition formatJobLabel :: "(jsval \<Rightarrow> jsdate) \<Rightarrow> job \<Rightarrow> string" where
  "formatJobLabel newDate j =
     (let when = (if truthy (created_at j) then formatDateTime newDate (Val (created_at j)) None
                  else [])
      in if type' j = dirs
           then js_String (js_or (base_url j) (JStr ''URL'')) @ '' '' @ bullet @ '' '' @ when
         else if type' j = subdomains
           then js_String (js_or (domain j) (JStr ''Domain'')) @ '' '' @ bullet @ '' '' @ when
         else if type' j = ports
           then js_String (js_or (js_and (targets j) (js_index0 (targets j))) (JStr ''Targets''))
                  @ '' '' @ bullet @ '' '' @ when
         else js_String (id' j) @ '' '' @ bullet @ '' '' @ when)"

record report_table =
  headers :: "string list"
  rows :: "string list list"

definition buildReportTable :: "(jsval \<Rightarrow> jsdate) \<Rightarrow> job \<Rightarrow> finding list \<Rightarrow> report_table" where
  "buildReportTable newDate j fs =
     (if type' j = dirs then
        \<lparr>headers = [''URL'', ''Status'', ''Length'', ''Title'', ''Type'', ''Redirect''],
         rows = map (\<lambda>f.
           [js_String (js_or (url f) (JStr [])),
            js_String (js_coalesce (js_coalesce (js_coalesce (status f) (code f)) (http_status f))
                        (JStr [])),
            js_String (js_coalesce (length' f) (JStr [])),
            js_String (js_or (title f) (JStr [])),
            js_String (js_or (content_type f) (JStr [])),
            js_String (js_coalesce (redirected_to f) (JStr []))]) fs\<rparr>
      else if type' j = ports then
        \<lparr>headers = [''Target'', ''Port'', ''Status'', ''Banner''],
         rows = map (\<lambda>f.
           [js_String (js_or (target f) (JStr [])),
            js_String (js_coalesce (port f) (JStr [])),
            js_String (js_or (status f) (JStr [])),
            js_String (js_or (banner f) (JStr []))]) fs\<rparr>
      else
        \<lparr>headers = [''Subdomain'', ''IPs'', ''First Seen'', ''Last Seen''],
         rows = map (\<lambda>f.
           [js_String (js_or (subdomain f) (JStr [])),
            (case resolved_ips f of
               JArr xs \<Rightarrow> join '', '' (map (\<lambda>x. if nullish x then [] else js_String x) xs)
             | _ \<Rightarrow> []),
            (if truthy (first_seen f) then formatDateTime newDate (Val (first_seen f)) None else []),
            (if truthy (last_seen f) then formatDateTime newDate (Val (last_seen f)) None else [])])
           fs\<rparr>)"

definition type_upper :: "job_type \<Rightarrow> string" where
  "type_upper t = (case t of subdomains \<Rightarrow> ''SUBDOMAINS'' | ports \<Rightarrow> ''PORTS'' | dirs \<Rightarrow> ''DIRS'')"

definition type_name :: "job_type \<Rightarrow> string" where
  "type_name t = (case t of subdomains \<Rightarrow> ''subdomains'' | ports \<Rightarrow> ''ports'' | dirs \<Rightarrow> ''dirs'')"

text \<open>The lines of the text report, in order: title, generation time, a blank line, the header row, the rows.\<close>

definition report_lines :: "(jsval \<Rightarrow> jsdate) \<Rightarrow> jsdate \<Rightarrow> job \<Rightarrow> report_table \<Rightarrow> string list" where
  "report_lines newDate now j table =
     [''# ReconX Report '' @ em_dash @ '' '' @ type_upper (type' j) @ '' ('' @
        formatJobLabel newDate j @ '')'',
      ''Generated: '' @ formatDateTime newDate (DateObj now) None,
      [],
      join [CHR 0x09] (headers table)]
     @ map (\<lambda>row. join [CHR 0x09] row) (rows table)"

text \<open>
  The backend as the export sees it: the \<open>n\<close>-th findings request of a session is
  answered with \<open>findings_response b n\<close>, \<open>None\<close> when it fails. The counter
  \<open>requests\<close> is the number of findings requests sent so far.
\<close>

record export_file =
  filename :: string
  content :: string

datatype export_outcome = Downloaded export_file | ExportFailed

definition exportTXT ::
  "(jsval \<Rightarrow> jsdate) \<Rightarrow> jsdate \<Rightarrow> (nat \<Rightarrow> finding list option) \<Rightarrow> job \<Rightarrow> nat
     \<Rightarrow> export_outcome \<times> nat" where
  "exportTXT newDate now findings_response j requests =
     (case findings_response requests of
        None \<Rightarrow> (ExportFailed, Suc requests)
      | Some data' \<Rightarrow>
          (Downloaded
             \<lparr>filename = ''reconx_'' @ type_name (type' j) @ ''_'' @ js_String (id' j) @ ''.txt'',
              content = join [CHR 0x0A]
                (report_lines newDate now j (buildReportTable newDate j data'))\<rparr>,
           Suc requests))"

text \<open>
  The re-parse of an exported text report, in the words of the round-trip property: the
  text is split into lines, the two preamble lines and the blank line after them are
  dropped, and each remaining line (the header row, then the rows) is split at tabs.
\<close>

definition reparse_report :: "string \<Rightarrow> string list list" where
  "reparse_report txt = map (split_char (CHR 0x09)) (drop 3 (split_char (CHR 0x0A) txt))"

text \<open>The text of an export, empty when the export failed.\<close>

definition exported_text :: "export_outcome \<Rightarrow> string" where
  "exported_text outcome = (case outcome of Downloaded f \<Rightarrow> content f | ExportFailed \<Rightarrow> [])"

section \<open>Starting a scan\<close>

text \<open>
  A create-job request as far as the properties below read it: the path given to
  \<open>api\<close>, the \<open>authorized\<close> flag, the target field of each kind and the wordlist
  (inline, or the text of an uploaded file). The other options of a request (timeouts,
  concurrency, ports, extensions, status codes, retries) are copied from the form and
  are not modelled.
\<close>

record scan_request =
  rq_path :: string
  rq_authorized :: bool
  rq_domain :: "string option"
  rq_targets :: "string list option"
  rq_base_url :: "string option"
  rq_wordlist :: "string list option"
  rq_wordlist_file :: "string option"

text \<open>
  A start button that is disabled starts nothing: pressing it runs the handler only
  when the guard holds. \<open>None\<close> is "nothing happened"; the handler itself ends in an
  error message (\<open>Inl\<close>, nothing sent) or sends a request (\<open>Inr\<close>). The browser's
  own validation of the form fields (\<open>required\<close>, \<open>type="url"\<close>), which can stop
  a submission as well, is not modelled.
\<close>

definition press :: "bool \<Rightarrow> (string + scan_request) \<Rightarrow> (string + scan_request) option" where
  "press enabled handler = (if enabled then Some handler else None)"

subsection \<open>\<open>reconx/ui\<close>: \<open>NewScan\<close>\<close>

text \<open>
  The form starts as \<open>{authorized: false, useUpload: false, wordlistText: '', ...}\<close>; the
  domain, the targets (a list, split at commas as the user types) and the base URL are
  absent until typed.
\<close>

record newscan_form =
  ns_authorized :: bool
  ns_useUpload :: bool
  ns_wordlistText :: string
  ns_domain :: "string option"
  ns_targets :: "string list option"
  ns_base_url :: "string option"

definition nonempty :: "string option \<Rightarrow> bool" where
  "nonempty v = (case v of None \<Rightarrow> False | Some s \<Rightarrow> s \<noteq> [])"

definition valid :: "job_type \<Rightarrow> newscan_form \<Rightarrow> bool" where
  "valid k form =
     (ns_authorized form \<and>
      ((k = subdomains \<and> nonempty (ns_domain form))
       \<or> (k = ports \<and> (case ns_targets form of None \<Rightarrow> False | Some ts \<Rightarrow> length ts > 0))
       \<or> (k = dirs \<and> nonempty (ns_base_url form))))"

text \<open>\<open>submit\<close>; \<open>file\<close> is the text of the chosen wordlist file, if one is chosen.\<close>

definition submit :: "job_type \<Rightarrow> newscan_form \<Rightarrow> string option \<Rightarrow> string + scan_request" where
  "submit k form file =
     (if k = dirs \<and> ns_useUpload form then
        (case file of
           None \<Rightarrow> Inl ''Choose a wordlist file''
         | Some txt \<Rightarrow>
             Inr \<lparr>rq_path = ''/api/recon/dirs/scan/upload'',
                  rq_authorized = ns_authorized form,
                  rq_domain = None,
                  rq_targets = None,
                  rq_base_url = Some (case ns_base_url form of None \<Rightarrow> []
                                      | Some b \<Rightarrow> b),
                  rq_wordlist = None,
                  rq_wordlist_file = Some txt\<rparr>)
      else
        Inr \<lparr>rq_path = ''/api/recon/'' @ type_name k @ ''/scan'',
             rq_authorized = ns_authorized form,
             rq_domain = ns_domain form,
             rq_targets = ns_targets form,
             rq_base_url = ns_base_url form,
             rq_wordlist =
               (if k = dirs \<and> ns_wordlistText form \<noteq> []
                then Some (filter_Boolean (map trim (split_lines (ns_wordlistText form))))
                else None),
             rq_wordlist_file = None\<rparr>)"

text \<open>The start button: \<open>disabled={!valid || submitting}\<close>.\<close>

definition start_scan ::
  "job_type \<Rightarrow> newscan_form \<Rightarrow> bool \<Rightarrow> string option \<Rightarrow> (string + scan_request) option" where
  "start_scan k form submitting file = press (valid k form \<and> \<not> submitting) (submit k form file)"

subsection \<open>\<open>viz-recon-main\<close>: the three forms of \<open>Dashboard\<close>\<close>

record subdomain_form =
  sf_domain :: string
  sf_authorized :: bool
  sf_useResolversFile :: bool

record port_form =
  pf_targets :: string
  pf_authorized :: bool
  pf_useTargetsFile :: bool
  pf_usePortsFile :: bool

record dir_form =
  df_base_url :: string
  df_authorized :: bool
  df_useUpload :: bool
  df_wordlistText :: string

text \<open>Each handler takes the text of the files chosen in its file inputs, \<open>None\<close> where none is chosen.\<close>

definition handleSubdomainScan :: "subdomain_form \<Rightarrow> string option \<Rightarrow> string + scan_request" where
  "handleSubdomainScan form resolvers_file =
     (if sf_useResolversFile form \<and> resolvers_file = None
      then Inl ''Please choose a resolvers file or disable file mode''
      else Inr \<lparr>rq_path = ''/recon/subdomains/scan'',
                rq_authorized = sf_authorized form,
                rq_domain = Some (sf_domain form),
                rq_targets = None,
                rq_base_url = None,
                rq_wordlist = None,
                rq_wordlist_file = None\<rparr>)"

definition handlePortScan ::
  "port_form \<Rightarrow> string option \<Rightarrow> string option \<Rightarrow> string + scan_request" where
  "handlePortScan form targets_file ports_file =
     (if pf_useTargetsFile form \<and> targets_file = None
      then Inl ''Please choose a targets file or disable file mode''
      else if pf_usePortsFile form \<and> ports_file = None
      then Inl ''Please choose a ports file or disable file mode''
      else
        (let targetsStr = (if pf_useTargetsFile form
                           then (case targets_file of None \<Rightarrow> [] | Some txt \<Rightarrow> txt)
                           else pf_targets form)
         in Inr \<lparr>rq_path = ''/recon/ports/scan'',
                  rq_authorized = pf_authorized form,
                  rq_domain = None,
                  rq_targets = Some (filter_Boolean (map trim (split_seps targetsStr))),
                  rq_base_url = None,
                  rq_wordlist = None,
                  rq_wordlist_file = None\<rparr>))"

definition handleDirScan :: "dir_form \<Rightarrow> string option \<Rightarrow> string + scan_request" where
  "handleDirScan form wordlist_file =
     (if df_useUpload form \<and> df_wordlistText form \<noteq> [] then
        Inr \<lparr>rq_path = ''/recon/dirs/scan'',
             rq_authorized = df_authorized form,
             rq_domain = None,
             rq_targets = None,
             rq_base_url = Some (df_base_url form),
             rq_wordlist = Some (filter_Boolean (map trim (split_lines (df_wordlistText form)))),
             rq_wordlist_file = None\<rparr>
      else if df_useUpload form then
        (case wordlist_file of
           None \<Rightarrow> Inl ''Please choose a wordlist file''
         | Some txt \<Rightarrow>
             Inr \<lparr>rq_path = ''/recon/dirs/scan/upload'',
                  rq_authorized = df_authorized form,
                  rq_domain = None,
                  rq_targets = None,
                  rq_base_url = Some (df_base_url form),
                  rq_wordlist = None,
                  rq_wordlist_file = Some txt\<rparr>)
      else
        Inr \<lparr>rq_path = ''/recon/dirs/scan'',
             rq_authorized = df_authorized form,
             rq_domain = None,
             rq_targets = None,
             rq_base_url = Some (df_base_url form),
             rq_wordlist = None,
             rq_wordlist_file = None\<rparr>)"

text \<open>The submit buttons: \<open>disabled={!form.field || !form.authorized}\<close>.\<close>

definition start_subdomain_scan ::
  "subdomain_form \<Rightarrow> string option \<Rightarrow> (string + scan_request) option" where
  "start_subdomain_scan form resolvers_file =
     press (\<not> (sf_domain form = [] \<or> \<not> sf_authorized form))
       (handleSubdomainScan form resolvers_file)"

definition start_port_scan ::
  "port_form \<Rightarrow> string option \<Rightarrow> string option \<Rightarrow> (string + scan_request) option" where
  "start_port_scan form targets_file ports_file =
     press (\<not> (pf_targets form = [] \<or> \<not> pf_authorized form))
       (handlePortScan form targets_file ports_file)"

definition start_dir_scan :: "dir_form \<Rightarrow> string option \<Rightarrow> (string + scan_request) option" where
  "start_dir_scan form wordlist_file =
     press (\<not> (df_base_url form = [] \<or> \<not> df_authorized form))
       (handleDirScan form wordlist_file)"


section \<open>The jobs panel of \<open>viz-recon-main\<close>\<close>

datatype panel_tab = jobs_tab | results_tab | report_tab

datatype job_action = pause | resume | cancel

text \<open>The control buttons a job card offers, in the order of the card.\<close>

definition job_controls :: "panel_tab \<Rightarrow> job \<Rightarrow> job_action list" where
  "job_controls tab j =
     (if tab = jobs_tab \<and> state j = running then [pause] else [])
     @ (if tab = jobs_tab \<and> state j = paused then [resume] else [])
     @ (if tab = jobs_tab \<and> (state j = running \<or> state j = paused) then [cancel] else [])"

text \<open>The job cards of the right panel; the report tab shows none.\<close>

definition panel_jobs :: "panel_tab \<Rightarrow> job_type \<Rightarrow> job list \<Rightarrow> job list" where
  "panel_jobs tab resultsTab js =
     (if tab = report_tab then []
      else if tab = jobs_tab then js
      else filter (\<lambda>j. type' j = resultsTab) js)"

section \<open>Backend reachability\<close>

text \<open>
  What a \<open>fetch\<close> comes to: it fails (network error), or it yields a response with its
  \<open>ok\<close> flag and its body, \<open>body_json\<close> being what \<open>response.json()\<close> parses
  (\<open>None\<close> when the body is not JSON).
\<close>

record 'a response =
  ok :: bool
  body_json :: "'a option"

datatype 'a fetched = NetworkError | Response "'a response"

text \<open>\<open>fetchJson\<close> (\<open>utils/api.ts\<close>): \<open>None\<close> when it throws.\<close>

definition fetchJson :: "'a fetched \<Rightarrow> 'a option" where
  "fetchJson r =
     (case r of
        NetworkError \<Rightarrow> None
      | Response resp \<Rightarrow> if \<not> ok resp then None else body_json resp)"

text \<open>\<open>reconx/ui\<close>, \<open>useBackendHealth\<close>: one run of \<open>check\<close> gives the new value of \<open>online\<close>.\<close>

definition check :: "'a fetched \<Rightarrow> bool \<Rightarrow> bool" where
  "check r online = (case r of NetworkError \<Rightarrow> False | Response resp \<Rightarrow> ok resp)"

text \<open>\<open>viz-recon-main\<close>, \<open>Dashboard\<close>: the state the polling functions write.\<close>

record metrics =
  findings_total :: jsval
  findings_per_min :: jsval

record dashboard =
  d_metrics :: "metrics option"
  d_jobs :: "job list"
  isBackendOnline :: bool

text \<open>
  \<open>fetchMetrics\<close>: \<open>m\<close> is the outcome of the metrics request, \<open>h\<close> that of the
  health request, which is sent only when the first one fails.
\<close>

definition fetchMetrics :: "metrics fetched \<Rightarrow> 'a fetched \<Rightarrow> dashboard \<Rightarrow> dashboard" where
  "fetchMetrics m h st =
     (case fetchJson m of
        Some data' \<Rightarrow> st\<lparr>d_metrics := Some data', isBackendOnline := True\<rparr>
      | None \<Rightarrow>
          (case h of
             NetworkError \<Rightarrow> st\<lparr>isBackendOnline := False\<rparr>
           | Response res \<Rightarrow>
               if ok res then st\<lparr>isBackendOnline := True\<rparr>
               else st\<lparr>isBackendOnline := False\<rparr>))"

definition fetchJobs :: "job list fetched \<Rightarrow> dashboard \<Rightarrow> dashboard" where
  "fetchJobs r st = (case fetchJson r of Some data' \<Rightarrow> st\<lparr>d_jobs := data'\<rparr> | None \<Rightarrow> st)"

text \<open>The \<open>ok\<close> status of a request: that of its response, false when there is none.\<close>

definition ok_status :: "'a fetched \<Rightarrow> bool" where
  "ok_status r = (case r of NetworkError \<Rightarrow> False | Response resp \<Rightarrow> ok resp)"

section \<open>API addresses (\<open>utils/api.ts\<close>)\<close>

text \<open>
  What \<open>apiBase\<close> reads: the build variable \<open>VITE_API_BASE_URL\<close>, whether there is a
  \<open>window\<close>, the \<open>API_BASE_URL\<close> entry of its local storage, and the \<open>DEV\<close> flag.
\<close>

record api_env =
  VITE_API_BASE_URL :: "string option"
  has_window :: bool
  stored_API_BASE_URL :: "string option"
  DEV :: bool

text \<open>\<open>a || b\<close> on optional strings: the empty string is falsy like \<open>undefined\<close>.\<close>

definition or_else :: "string option \<Rightarrow> string option \<Rightarrow> string option" where
  "or_else a b = (if nonempty a then a else b)"

text \<open>\<open>s.replace(/\/$/, '')\<close>: one slash at the very end is removed.\<close>

definition strip_slash :: "string \<Rightarrow> string" where
  "strip_slash s = (if s \<noteq> [] \<and> last s = CHR ''/'' then butlast s else s)"

text \<open>\<open>s.endsWith(t)\<close>, to say what a base URL ends in.\<close>

definition ends_with :: "string \<Rightarrow> string \<Rightarrow> bool" where
  "ends_with s t = startsWith (rev s) (rev t)"

text \<open>The base URL \<open>apiBase\<close> settles on before it checks and trims it.\<close>

definition baseUrl :: "api_env \<Rightarrow> string option" where
  "baseUrl env =
     (let envBase = VITE_API_BASE_URL env;
          storedBase = (if has_window env then or_else (stored_API_BASE_URL env) None else None);
          devDefault = (if DEV env then Some ''http://127.0.0.1:8000'' else None)
      in or_else (or_else envBase storedBase) devDefault)"

definition apiBase :: "api_env \<Rightarrow> string" where
  "apiBase env =
     (case baseUrl env of
        None \<Rightarrow> []
      | Some b \<Rightarrow>
          if b \<noteq> [] \<and> (startsWith b ''http://'' \<or> startsWith b ''https://'')
          then strip_slash b else [])"

definition api :: "api_env \<Rightarrow> string \<Rightarrow> string" where
  "api env path =
     (let base = apiBase env;
          p = (if startsWith path ''/'' then path else ''/'' @ path);
          isHealth = startsWith p ''/healthz'';
          needsApiPrefix = (\<not> isHealth \<and> \<not> startsWith p ''/api/'')
      in if base \<noteq> [] then base @ (if needsApiPrefix then ''/api'' else []) @ p
         else (if needsApiPrefix then ''/api'' else []) @ p)"

section \<open>Properties of the job details modal\<close>

lemma expectedKind_cases:
  "expectedKind t =
     Some (case t of dirs \<Rightarrow> ''dir'' | ports \<Rightarrow> ''port'' | subdomains \<Rightarrow> ''subdomain'')"
  by (cases t) (simp_all add: expectedKind_def)

lemma textOk_empty: "filter_text flt = [] \<Longrightarrow> textOk flt f"
  by (simp add: textOk_def trim_def toLowerCase_def)

lemma statusOk_empty: "filter_status flt = [] \<Longrightarrow> statusOk flt f"
  by (simp add: statusOk_def)

text \<open>
  C1. After a refresh that fetched the job and a findings list, the findings the modal
  keeps are exactly the fetched ones whose \<open>job_id\<close>, as a string (an absent one reads
  as the empty string), equals the job id as a string and whose \<open>kind\<close> is the kind
  of the job's type: \<open>dir\<close> for dirs, \<open>port\<close> for ports, \<open>subdomain\<close> for
  subdomains; they keep their order, and every other finding is dropped. The table shows
  kept findings only, and all of them while the directory filter is empty.
\<close>

theorem refresh_keeps_exactly_matching_findings:
  "m_findings (refresh jobId (Some (jobData, findingsData)) st) =
     filter
       (\<lambda>f. js_String (js_coalesce (job_id f) (JStr [])) = js_String jobId
            \<and> kind f = JStr (case type' jobData of
                               dirs \<Rightarrow> ''dir'' | ports \<Rightarrow> ''port''
                             | subdomains \<Rightarrow> ''subdomain''))
       (case findingsData of None \<Rightarrow> [] | Some fs \<Rightarrow> fs)
   \<and> m_job (refresh jobId (Some (jobData, findingsData)) st) = Some jobData
   \<and> set (shown_findings (refresh jobId (Some (jobData, findingsData)) st))
       \<subseteq> set (m_findings (refresh jobId (Some (jobData, findingsData)) st))
   \<and> (filter_text (m_dirFilter st) = [] \<and> filter_status (m_dirFilter st) = [] \<longrightarrow>
       shown_findings (refresh jobId (Some (jobData, findingsData)) st) =
       m_findings (refresh jobId (Some (jobData, findingsData)) st))"
proof (intro conjI)
  show "m_findings (refresh jobId (Some (jobData, findingsData)) st) =
     filter
       (\<lambda>f. js_String (js_coalesce (job_id f) (JStr [])) = js_String jobId
            \<and> kind f = JStr (case type' jobData of
                               dirs \<Rightarrow> ''dir'' | ports \<Rightarrow> ''port''
                             | subdomains \<Rightarrow> ''subdomain''))
       (case findingsData of None \<Rightarrow> [] | Some fs \<Rightarrow> fs)"
    by (simp add: refresh_def purified_def expectedKind_cases)
  show "m_job (refresh jobId (Some (jobData, findingsData)) st) = Some jobData"
    by (simp add: refresh_def)
  show "set (shown_findings (refresh jobId (Some (jobData, findingsData)) st))
       \<subseteq> set (m_findings (refresh jobId (Some (jobData, findingsData)) st))"
    by (auto simp: shown_findings_def)
  show "filter_text (m_dirFilter st) = [] \<and> filter_status (m_dirFilter st) = [] \<longrightarrow>
       shown_findings (refresh jobId (Some (jobData, findingsData)) st) =
       m_findings (refresh jobId (Some (jobData, findingsData)) st)"
    by (simp add: refresh_def shown_findings_def textOk_empty statusOk_empty)
qed

theorem refresh_keeps_exactly_matching_findings_witness:
  "filter_text (m_dirFilter (modal_init None)) = []
   \<and> filter_status (m_dirFilter (modal_init None)) = []
   \<and> m_findings
       (refresh (JNum 7)
          (Some (\<lparr>id' = JNum 7, type' = ports, state = running, created_at = JUndefined,
                   targets = JUndefined, domain = JUndefined, base_url = JUndefined\<rparr>,
                 Some [empty_finding\<lparr>job_id := JStr ''7'', kind := JStr ''port''\<rparr>,
                       empty_finding\<lparr>job_id := JNum 8, kind := JStr ''port''\<rparr>,
                       empty_finding\<lparr>job_id := JNum 7, kind := JStr ''dir''\<rparr>,
                       empty_finding\<lparr>job_id := JNum 7, kind := JStr ''port''\<rparr>]))
          (modal_init None))
     = [empty_finding\<lparr>job_id := JStr ''7'', kind := JStr ''port''\<rparr>,
        empty_finding\<lparr>job_id := JNum 7, kind := JStr ''port''\<rparr>]
   \<and> shown_findings
       (refresh (JNum 7)
          (Some (\<lparr>id' = JNum 7, type' = ports, state = running, created_at = JUndefined,
                   targets = JUndefined, domain = JUndefined, base_url = JUndefined\<rparr>,
                 Some [empty_finding\<lparr>job_id := JStr ''7'', kind := JStr ''port''\<rparr>,
                       empty_finding\<lparr>job_id := JNum 8, kind := JStr ''port''\<rparr>,
                       empty_finding\<lparr>job_id := JNum 7, kind := JStr ''dir''\<rparr>,
                       empty_finding\<lparr>job_id := JNum 7, kind := JStr ''port''\<rparr>]))
          (modal_init None))
     = [empty_finding\<lparr>job_id := JStr ''7'', kind := JStr ''port''\<rparr>,
        empty_finding\<lparr>job_id := JNum 7, kind := JStr ''port''\<rparr>]"
proof -
  let ?j = "\<lparr>id' = JNum 7, type' = ports, state = running, created_at = JUndefined,
             targets = JUndefined, domain = JUndefined, base_url = JUndefined\<rparr>"
  let ?fs = "[empty_finding\<lparr>job_id := JStr ''7'', kind := JStr ''port''\<rparr>,
              empty_finding\<lparr>job_id := JNum 8, kind := JStr ''port''\<rparr>,
              empty_finding\<lparr>job_id := JNum 7, kind := JStr ''dir''\<rparr>,
              empty_finding\<lparr>job_id := JNum 7, kind := JStr ''port''\<rparr>]"
  have empty: "filter_text (m_dirFilter (modal_init None)) = []
      \<and> filter_status (m_dirFilter (modal_init None)) = []"
    by (simp add: modal_init_def)
  have kept: "filter
       (\<lambda>f. js_String (js_coalesce (job_id f) (JStr [])) = js_String (JNum 7)
            \<and> kind f = JStr (case type' ?j of
                               dirs \<Rightarrow> ''dir'' | ports \<Rightarrow> ''port''
                             | subdomains \<Rightarrow> ''subdomain''))
       (case Some ?fs of None \<Rightarrow> [] | Some fs \<Rightarrow> fs)
     = [empty_finding\<lparr>job_id := JStr ''7'', kind := JStr ''port''\<rparr>,
        empty_finding\<lparr>job_id := JNum 7, kind := JStr ''port''\<rparr>]"
    by code_simp
  show ?thesis
    using refresh_keeps_exactly_matching_findings [of "JNum 7" ?j "Some ?fs" "modal_init None"]
      empty
    by (simp only: kept simp_thms)
qed




section \<open>Properties of the jobs panel\<close>

text \<open>
  C4. In the jobs list (the jobs tab shows every job) a job card offers the pause
  control exactly when the job is running, the resume control exactly when it is
  paused, and the cancel control exactly when it is running or paused; a job in a
  terminal state (completed, cancelled, failed) is offered no control. The results tab
  offers none either.
\<close>

theorem job_controls_by_state:
  "panel_jobs jobs_tab resultsTab js = js
   \<and> (pause \<in> set (job_controls jobs_tab j) \<longleftrightarrow> state j = running)
   \<and> (resume \<in> set (job_controls jobs_tab j) \<longleftrightarrow> state j = paused)
   \<and> (cancel \<in> set (job_controls jobs_tab j) \<longleftrightarrow> state j = running \<or> state j = paused)
   \<and> (state j = completed \<or> state j = cancelled \<or> state j = failed \<longrightarrow>
        job_controls jobs_tab j = [])
   \<and> distinct (job_controls jobs_tab j)
   \<and> job_controls results_tab j = []"
  by (cases "state j") (simp_all add: job_controls_def panel_jobs_def)

theorem job_controls_by_state_witness:
  "state \<lparr>id' = JNum 1, type' = dirs, state = failed, created_at = JUndefined,
           targets = JUndefined, domain = JUndefined, base_url = JUndefined\<rparr> = failed
   \<and> job_controls jobs_tab
        \<lparr>id' = JNum 1, type' = dirs, state = failed, created_at = JUndefined,
          targets = JUndefined, domain = JUndefined, base_url = JUndefined\<rparr> = []
   \<and> pause \<in> set (job_controls jobs_tab
        \<lparr>id' = JNum 2, type' = dirs, state = running, created_at = JUndefined,
          targets = JUndefined, domain = JUndefined, base_url = JUndefined\<rparr>)
   \<and> resume \<notin> set (job_controls jobs_tab
        \<lparr>id' = JNum 2, type' = dirs, state = running, created_at = JUndefined,
          targets = JUndefined, domain = JUndefined, base_url = JUndefined\<rparr>)"
  using job_controls_by_state
      [of _ _
          "\<lparr>id' = JNum 1, type' = dirs, state = failed, created_at = JUndefined,
            targets = JUndefined, domain = JUndefined, base_url = JUndefined\<rparr>"]
    job_controls_by_state
      [of _ _
          "\<lparr>id' = JNum 2, type' = dirs, state = running, created_at = JUndefined,
            targets = JUndefined, domain = JUndefined, base_url = JUndefined\<rparr>"]
  by simp

section \<open>Properties of the API addresses\<close>

lemma startsWith_iff: "startsWith s p \<longleftrightarrow> (\<exists>r. s = p @ r)"
  by (induction s p rule: startsWith.induct) auto

lemma ends_with_iff: "ends_with s t \<longleftrightarrow> (\<exists>r. s = r @ t)"
proof -
  have "(\<exists>r. rev s = rev t @ r) \<longleftrightarrow> (\<exists>r. s = r @ t)"
  proof
    assume "\<exists>r. rev s = rev t @ r"
    then obtain r where "rev s = rev t @ r" by blast
    then have "rev (rev s) = rev (rev t @ r)" by simp
    then have "s = rev r @ t" by simp
    then show "\<exists>r. s = r @ t" by blast
  next
    assume "\<exists>r. s = r @ t"
    then obtain r where "s = r @ t" by blast
    then have "rev s = rev t @ rev r" by simp
    then show "\<exists>r. rev s = rev t @ r" by blast
  qed
  then show ?thesis by (simp add: ends_with_def startsWith_iff)
qed

lemma ends_with_slash: "ends_with s ''/'' \<longleftrightarrow> s \<noteq> [] \<and> last s = CHR ''/''"
proof
  assume "ends_with s ''/''"
  then obtain r where "s = r @ ''/''" by (auto simp: ends_with_iff)
  then show "s \<noteq> [] \<and> last s = CHR ''/''" by simp
next
  assume "s \<noteq> [] \<and> last s = CHR ''/''"
  then have "s = butlast s @ ''/''" by (metis append_butlast_last_id)
  then show "ends_with s ''/''" unfolding ends_with_iff by blast
qed

lemma strip_slash_keeps_prefix:
  assumes "startsWith b p" and "\<not> ends_with b ''//''" and "ends_with p ''//''"
  shows "startsWith (strip_slash b) p"
proof (cases "b \<noteq> [] \<and> last b = CHR ''/''")
  case False
  then show ?thesis using assms(1) by (auto simp: strip_slash_def)
next
  case True
  from assms(1) obtain r where r: "b = p @ r" by (auto simp: startsWith_iff)
  have "r \<noteq> []"
  proof
    assume "r = []"
    with r assms(3) have "ends_with b ''//''" by simp
    with assms(2) show False by simp
  qed
  then have "butlast b = p @ butlast r" using r by (simp add: butlast_append)
  then show ?thesis using True by (auto simp: strip_slash_def startsWith_iff)
qed

lemma strip_slash_no_trailing:
  assumes "\<not> ends_with b ''//''"
  shows "\<not> ends_with (strip_slash b) ''/''"
proof (cases "b \<noteq> [] \<and> last b = CHR ''/''")
  case False
  then show ?thesis by (auto simp: strip_slash_def ends_with_slash)
next
  case True
  then have b: "b = butlast b @ ''/''" by (metis append_butlast_last_id)
  show ?thesis
  proof
    assume "ends_with (strip_slash b) ''/''"
    with True have "ends_with (butlast b) ''/''" by (simp add: strip_slash_def)
    then obtain r where "butlast b = r @ ''/''" by (auto simp: ends_with_iff)
    with b have "b = r @ ''//''" by simp
    then have "ends_with b ''//''" unfolding ends_with_iff by blast
    with assms show False by simp
  qed
qed

lemma apiBase_cases:
  "apiBase env = [] \<or>
   (\<exists>b. baseUrl env = Some b \<and> (startsWith b ''http://'' \<or> startsWith b ''https://'')
        \<and> apiBase env = strip_slash b)"
  by (auto simp: apiBase_def split: option.splits)

text \<open>
  C8, as stated, fails where it says the base never ends in a slash: \<open>apiBase\<close> removes
  one trailing slash only, so a configured base that ends in two keeps one. (For the
  configured base \<open>http://\<close> the result \<open>http:/\<close> has lost its scheme prefix as well.)
\<close>

theorem apiBase_trailing_slash_counterexample:
  "apiBase \<lparr>VITE_API_BASE_URL = Some ''http://h//'', has_window = False,
            stored_API_BASE_URL = None, DEV = False\<rparr> = ''http://h/''
   \<and> \<not> (apiBase \<lparr>VITE_API_BASE_URL = Some ''http://h//'', has_window = False,
                  stored_API_BASE_URL = None, DEV = False\<rparr> = []
        \<or> ((startsWith (apiBase \<lparr>VITE_API_BASE_URL = Some ''http://h//'', has_window = False,
                  stored_API_BASE_URL = None, DEV = False\<rparr>) ''http://''
             \<or> startsWith (apiBase \<lparr>VITE_API_BASE_URL = Some ''http://h//'', has_window = False,
                  stored_API_BASE_URL = None, DEV = False\<rparr>) ''https://'')
            \<and> \<not> ends_with (apiBase \<lparr>VITE_API_BASE_URL = Some ''http://h//'',
                  has_window = False, stored_API_BASE_URL = None, DEV = False\<rparr>) ''/''))
   \<and> apiBase \<lparr>VITE_API_BASE_URL = Some ''http://'', has_window = False,
              stored_API_BASE_URL = None, DEV = False\<rparr> = ''http:/''"
  by code_simp

text \<open>
  C8, amended. For every path \<open>p\<close>, \<open>api p\<close> is \<open>B @ pre @ p'\<close>, where \<open>p'\<close> is
  \<open>p\<close> with a leading slash put in front when it has none, \<open>pre\<close> is \<open>/api\<close>
  exactly when \<open>p'\<close> starts with neither \<open>/api/\<close> nor \<open>/healthz\<close>, and
  \<open>B = apiBase()\<close> is empty or is the configured base URL, which starts with
  \<open>http://\<close> or \<open>https://\<close>, with one trailing slash removed. Unless the configured
  base ends in two slashes, a non-empty \<open>B\<close> starts with \<open>http://\<close> or
  \<open>https://\<close> and does not end in a slash.
\<close>

theorem api_address:
  "api env path =
     apiBase env
     @ (if \<not> startsWith (if startsWith path ''/'' then path else ''/'' @ path) ''/api/''
           \<and> \<not> startsWith (if startsWith path ''/'' then path else ''/'' @ path) ''/healthz''
        then ''/api'' else [])
     @ (if startsWith path ''/'' then path else ''/'' @ path)
   \<and> (apiBase env = [] \<or>
       (\<exists>b. baseUrl env = Some b \<and> (startsWith b ''http://'' \<or> startsWith b ''https://'')
            \<and> apiBase env = strip_slash b))
   \<and> (apiBase env \<noteq> [] \<and> (\<forall>b. baseUrl env = Some b \<longrightarrow> \<not> ends_with b ''//'') \<longrightarrow>
        (startsWith (apiBase env) ''http://'' \<or> startsWith (apiBase env) ''https://'')
        \<and> \<not> ends_with (apiBase env) ''/'')"
proof (intro conjI)
  show "api env path =
     apiBase env
     @ (if \<not> startsWith (if startsWith path ''/'' then path else ''/'' @ path) ''/api/''
           \<and> \<not> startsWith (if startsWith path ''/'' then path else ''/'' @ path) ''/healthz''
        then ''/api'' else [])
     @ (if startsWith path ''/'' then path else ''/'' @ path)"
    by (simp add: api_def Let_def)
  show "apiBase env = [] \<or>
       (\<exists>b. baseUrl env = Some b \<and> (startsWith b ''http://'' \<or> startsWith b ''https://'')
            \<and> apiBase env = strip_slash b)"
    by (rule apiBase_cases)
  show "apiBase env \<noteq> [] \<and> (\<forall>b. baseUrl env = Some b \<longrightarrow> \<not> ends_with b ''//'') \<longrightarrow>
        (startsWith (apiBase env) ''http://'' \<or> startsWith (apiBase env) ''https://'')
        \<and> \<not> ends_with (apiBase env) ''/''"
  proof
    assume a: "apiBase env \<noteq> [] \<and> (\<forall>b. baseUrl env = Some b \<longrightarrow> \<not> ends_with b ''//'')"
    with apiBase_cases [of env] obtain b where b: "baseUrl env = Some b"
      "startsWith b ''http://'' \<or> startsWith b ''https://''" "apiBase env = strip_slash b"
      by blast
    from a b(1) have n: "\<not> ends_with b ''//''" by blast
    have e1: "ends_with ''http://'' ''//''" and e2: "ends_with ''https://'' ''//''"
      by (simp_all add: ends_with_def)
    from b(2) have "startsWith (strip_slash b) ''http://'' \<or> startsWith (strip_slash b) ''https://''"
      using strip_slash_keeps_prefix [OF _ n e1] strip_slash_keeps_prefix [OF _ n e2] by blast
    with strip_slash_no_trailing [OF n] b(3)
    show "(startsWith (apiBase env) ''http://'' \<or> startsWith (apiBase env) ''https://'')
        \<and> \<not> ends_with (apiBase env) ''/''" by simp
  qed
qed

theorem api_address_witness:
  "baseUrl \<lparr>VITE_API_BASE_URL = Some ''http://h/'', has_window = False,
            stored_API_BASE_URL = None, DEV = False\<rparr> = Some ''http://h/''
   \<and> \<not> ends_with ''http://h/'' ''//''
   \<and> apiBase \<lparr>VITE_API_BASE_URL = Some ''http://h/'', has_window = False,
              stored_API_BASE_URL = None, DEV = False\<rparr> = ''http://h''
   \<and> startsWith (apiBase \<lparr>VITE_API_BASE_URL = Some ''http://h/'', has_window = False,
              stored_API_BASE_URL = None, DEV = False\<rparr>) ''http://''
   \<and> \<not> ends_with (apiBase \<lparr>VITE_API_BASE_URL = Some ''http://h/'', has_window = False,
              stored_API_BASE_URL = None, DEV = False\<rparr>) ''/''
   \<and> api \<lparr>VITE_API_BASE_URL = Some ''http://h/'', has_window = False,
          stored_API_BASE_URL = None, DEV = False\<rparr> ''jobs'' = ''http://h/api/jobs''"
proof -
  let ?e = "\<lparr>VITE_API_BASE_URL = Some ''http://h/'', has_window = False,
             stored_API_BASE_URL = None, DEV = False\<rparr>"
  have b: "baseUrl ?e = Some ''http://h/''"
    by code_simp
  have n: "\<not> ends_with ''http://h/'' ''//''"
    by code_simp
  have a: "apiBase ?e = ''http://h''"
    by code_simp
  show ?thesis
    using api_address [of ?e "''jobs''"] n
    by (simp add: a b ends_with_def strip_slash_def)
qed

section \<open>Properties of \<open>formatDateTime\<close>\<close>

lemma is_digit_digit_char: "d < 10 \<Longrightarrow> is_digit (digit_char d)"
  by (simp add: is_digit_def digit_char_def)

lemma digit_char_value: "d < 10 \<Longrightarrow> (of_char (digit_char d) :: nat) - 48 = d"
  by (simp add: digit_char_def)

lemma decimal_digits: "c \<in> set (decimal n) \<Longrightarrow> is_digit c"
proof (induction n rule: decimal.induct)
  case (1 n)
  show ?case
  proof (cases "n < 10")
    case True
    with "1.prems" show ?thesis
      by (simp add: decimal.simps [of n] is_digit_digit_char)
  next
    case False
    with "1.prems" have "c \<in> set (decimal (n div 10)) \<or> c = digit_char (n mod 10)"
      by (auto simp: decimal.simps [of n])
    with False "1.IH" show ?thesis
      by (auto simp: is_digit_digit_char)
  qed
qed

lemma digits_value_snoc:
  "digits_value (ds @ [c]) = 10 * digits_value ds + ((of_char c :: nat) - 48)"
  by (simp add: digits_value_def)

lemma decimal_value: "digits_value (decimal n) = n"
proof (induction n rule: decimal.induct)
  case (1 n)
  show ?case
  proof (cases "n < 10")
    case True
    then show ?thesis
      by (simp add: decimal.simps [of n] digits_value_def digit_char_value)
  next
    case False
    then have "digits_value (decimal n) = 10 * digits_value (decimal (n div 10)) + n mod 10"
      by (simp add: decimal.simps [of n] digits_value_snoc digit_char_value)
    with False "1.IH" show ?thesis by simp
  qed
qed

lemma decimal_nonempty: "decimal n \<noteq> []"
  by (simp add: decimal.simps [of n])

lemma length_decimal_small: "n < 10 \<Longrightarrow> length (decimal n) = 1"
  by (simp add: decimal.simps [of n])

lemma length_decimal_two: "10 \<le> n \<Longrightarrow> n < 100 \<Longrightarrow> length (decimal n) = 2"
  by (simp add: decimal.simps [of n] length_decimal_small)

lemma length_decimal_three: "100 \<le> n \<Longrightarrow> n < 1000 \<Longrightarrow> length (decimal n) = 3"
  by (simp add: decimal.simps [of n] length_decimal_two)

lemma length_decimal_four: "1000 \<le> n \<Longrightarrow> n < 10000 \<Longrightarrow> length (decimal n) = 4"
  by (simp add: decimal.simps [of n] length_decimal_three)

lemma length_pad: "length (pad n) = max 2 (length (decimal n))"
  by (simp add: pad_def)

lemma length_pad_two: "n < 100 \<Longrightarrow> length (pad n) = 2"
  using length_decimal_small [of n] length_decimal_two [of n]
  by (cases "n < 10") (simp_all add: length_pad)

lemma pad_digits: "c \<in> set (pad n) \<Longrightarrow> is_digit c"
  by (auto simp: pad_def is_digit_def dest: decimal_digits)

lemma digits_value_zeros: "foldl (\<lambda>a c. 10 * a + ((of_char c :: nat) - 48)) 0 (replicate k CHR ''0'') = 0"
  by (induction k) simp_all

lemma pad_value: "digits_value (pad n) = n"
proof -
  have "digits_value (pad n) = digits_value (decimal n)"
    by (simp add: pad_def digits_value_def digits_value_zeros)
  then show ?thesis by (simp add: decimal_value)
qed

text \<open>
  C9, as stated, fails for the years that do not have four digits: the year is printed
  as it is, without padding, so a valid date of the year 999 gives 18 characters, a
  year before the common era a sign, a year after 9999 five digits or more.
\<close>

theorem formatDateTime_year_counterexample:
  "formatDateTime
     (\<lambda>x. ValidDate
        \<lparr>getFullYear = 999, getMonth = 0, getDate = 5, getHours = 3, getMinutes = 4,
          getSeconds = 9\<rparr>
        \<lparr>getFullYear = 999, getMonth = 0, getDate = 5, getHours = 3, getMinutes = 4,
          getSeconds = 9\<rparr>)
     (Val (JStr ''0999-01-05T03:04:09'')) None = ''999-01-05 03:04:09''
   \<and> length (formatDateTime
     (\<lambda>x. ValidDate
        \<lparr>getFullYear = 999, getMonth = 0, getDate = 5, getHours = 3, getMinutes = 4,
          getSeconds = 9\<rparr>
        \<lparr>getFullYear = 999, getMonth = 0, getDate = 5, getHours = 3, getMinutes = 4,
          getSeconds = 9\<rparr>)
     (Val (JStr ''0999-01-05T03:04:09'')) None) = 18
   \<and> formatDateTime
     (\<lambda>x. ValidDate
        \<lparr>getFullYear = - 1, getMonth = 11, getDate = 31, getHours = 23, getMinutes = 59,
          getSeconds = 59\<rparr>
        \<lparr>getFullYear = - 1, getMonth = 11, getDate = 31, getHours = 23, getMinutes = 59,
          getSeconds = 59\<rparr>)
     (Val (JNum (- 62198755201000))) (Some \<lparr>utc = Some True, fallback = None\<rparr>)
     = ''-1-12-31 23:59:59 UTC''"
  by code_simp

text \<open>
  C9, amended. \<open>formatDateTime\<close> returns a string on every input. For \<open>null\<close> or
  \<open>undefined\<close>, and for a value whose date is invalid, it returns the fallback,
  \<open>N/A\<close> unless the options give another. Otherwise it returns the full year in
  decimal, not padded, then \<open>-\<close>, the month, \<open>-\<close>, the day, a space, the hours,
  \<open>:\<close>, the minutes, \<open>:\<close>, the seconds, followed by \<open>UTC\<close> after a space when the
  \<open>utc\<close> option is set; each field after the year is its number in decimal digits,
  padded with zeros to two digits at least (exactly two for a number below 100). For
  the years 1000 to 9999 the result has the exact shape \<open>YYYY-MM-DD hh:mm:ss\<close>: 19
  characters, 23 with the suffix.
\<close>

theorem formatDateTime_shape:
  "(v = Val JNull \<or> v = Val JUndefined \<longrightarrow>
      formatDateTime newDate v opts =
        (case opts of None \<Rightarrow> ''N/A''
         | Some os \<Rightarrow> (case fallback os of None \<Rightarrow> ''N/A'' | Some s \<Rightarrow> s)))
   \<and> ((case v of DateObj d \<Rightarrow> d | Val x \<Rightarrow> newDate x) = InvalidDate \<longrightarrow>
      formatDateTime newDate v opts =
        (case opts of None \<Rightarrow> ''N/A''
         | Some os \<Rightarrow> (case fallback os of None \<Rightarrow> ''N/A'' | Some s \<Rightarrow> s)))
   \<and> (v \<noteq> Val JNull \<and> v \<noteq> Val JUndefined
       \<and> (case v of DateObj d \<Rightarrow> d | Val x \<Rightarrow> newDate x) = ValidDate loc u
       \<and> d = (if (case opts of None \<Rightarrow> False
                   | Some os \<Rightarrow> (case utc os of None \<Rightarrow> False | Some b \<Rightarrow> b))
               then u else loc) \<longrightarrow>
      formatDateTime newDate v opts =
        decimal_int (getFullYear d) @ ''-'' @ pad (getMonth d + 1) @ ''-'' @ pad (getDate d)
        @ '' '' @ pad (getHours d) @ '':'' @ pad (getMinutes d) @ '':'' @ pad (getSeconds d)
        @ (if (case opts of None \<Rightarrow> False
               | Some os \<Rightarrow> (case utc os of None \<Rightarrow> False | Some b \<Rightarrow> b))
           then '' UTC'' else [])
      \<and> (1000 \<le> getFullYear d \<and> getFullYear d \<le> 9999 \<and> getMonth d < 12
          \<and> getDate d < 32 \<and> getHours d < 24 \<and> getMinutes d < 60 \<and> getSeconds d < 60 \<longrightarrow>
          length (formatDateTime newDate v opts) =
            (if (case opts of None \<Rightarrow> False
                 | Some os \<Rightarrow> (case utc os of None \<Rightarrow> False | Some b \<Rightarrow> b))
             then 23 else 19)))
   \<and> 2 \<le> length (pad n)
   \<and> (n < 100 \<longrightarrow> length (pad n) = 2)
   \<and> (\<forall>c \<in> set (pad n). is_digit c)
   \<and> digits_value (pad n) = n"
proof -
  let ?fb = "(case opts of None \<Rightarrow> ''N/A''
         | Some os \<Rightarrow> (case fallback os of None \<Rightarrow> ''N/A'' | Some s \<Rightarrow> s))"
  let ?utc = "(case opts of None \<Rightarrow> False
                   | Some os \<Rightarrow> (case utc os of None \<Rightarrow> False | Some b \<Rightarrow> b))"
  let ?date = "(case v of DateObj d \<Rightarrow> d | Val x \<Rightarrow> newDate x)"
  have nullish_case: "v = Val JNull \<or> v = Val JUndefined \<longrightarrow> formatDateTime newDate v opts = ?fb"
    by (auto simp: formatDateTime_def)
  have invalid_case: "?date = InvalidDate \<longrightarrow> formatDateTime newDate v opts = ?fb"
    by (auto simp: formatDateTime_def Let_def)
  have valid_case: "formatDateTime newDate v opts =
        decimal_int (getFullYear d) @ ''-'' @ pad (getMonth d + 1) @ ''-'' @ pad (getDate d)
        @ '' '' @ pad (getHours d) @ '':'' @ pad (getMinutes d) @ '':'' @ pad (getSeconds d)
        @ (if ?utc then '' UTC'' else [])"
    if "v \<noteq> Val JNull" "v \<noteq> Val JUndefined" "?date = ValidDate loc u"
      "d = (if ?utc then u else loc)"
    using that by (simp add: formatDateTime_def Let_def)
  have len: "length (formatDateTime newDate v opts) = (if ?utc then 23 else 19)"
    if "v \<noteq> Val JNull" "v \<noteq> Val JUndefined" "?date = ValidDate loc u"
      "d = (if ?utc then u else loc)"
      "1000 \<le> getFullYear d" "getFullYear d \<le> 9999" "getMonth d < 12"
      "getDate d < 32" "getHours d < 24" "getMinutes d < 60" "getSeconds d < 60"
  proof -
    have y: "length (decimal_int (getFullYear d)) = 4"
      using that(5,6) by (simp add: decimal_int_def length_decimal_four)
    have f: "length (pad (Suc (getMonth d))) = 2" "length (pad (getDate d)) = 2"
      "length (pad (getHours d)) = 2" "length (pad (getMinutes d)) = 2"
      "length (pad (getSeconds d)) = 2"
      using that(7-11) by (auto intro!: length_pad_two)
    show ?thesis
      by (simp add: valid_case [OF that(1-4)] y f)
  qed
  have p1: "2 \<le> length (pad n)"
    by (simp add: length_pad)
  have p2: "n < 100 \<longrightarrow> length (pad n) = 2"
    by (simp add: length_pad_two)
  have p3: "\<forall>c \<in> set (pad n). is_digit c"
    by (simp add: pad_digits)
  have p4: "digits_value (pad n) = n"
    by (rule pad_value)
  from nullish_case invalid_case valid_case len p1 p2 p3 p4 show ?thesis
    by blast
qed

theorem formatDateTime_shape_witness:
  "formatDateTime
     (\<lambda>x. ValidDate
        \<lparr>getFullYear = 2024, getMonth = 0, getDate = 5, getHours = 3, getMinutes = 4,
          getSeconds = 9\<rparr>
        \<lparr>getFullYear = 2024, getMonth = 0, getDate = 4, getHours = 22, getMinutes = 4,
          getSeconds = 9\<rparr>)
     (Val (JStr ''2024-01-05T03:04:09'')) None = ''2024-01-05 03:04:09''
   \<and> length (formatDateTime
     (\<lambda>x. ValidDate
        \<lparr>getFullYear = 2024, getMonth = 0, getDate = 5, getHours = 3, getMinutes = 4,
          getSeconds = 9\<rparr>
        \<lparr>getFullYear = 2024, getMonth = 0, getDate = 4, getHours = 22, getMinutes = 4,
          getSeconds = 9\<rparr>)
     (Val (JStr ''2024-01-05T03:04:09'')) None) = 19
   \<and> formatDateTime (\<lambda>x. InvalidDate) (Val (JStr ''soon'')) None = ''N/A''
   \<and> formatDateTime (\<lambda>x. InvalidDate) (Val JNull)
        (Some \<lparr>utc = Some True, fallback = Some ''-''\<rparr>) = ''-''
   \<and> pad 7 = ''07''"
proof -
  let ?loc = "\<lparr>getFullYear = 2024, getMonth = 0, getDate = 5, getHours = 3, getMinutes = 4,
          getSeconds = 9\<rparr>"
  let ?u = "\<lparr>getFullYear = 2024, getMonth = 0, getDate = 4, getHours = 22, getMinutes = 4,
          getSeconds = 9\<rparr>"
  have y: "decimal_int 2024 = ''2024''"
    by code_simp
  have p: "pad (Suc 0) = ''01''" "pad 5 = ''05''" "pad 3 = ''03''" "pad 4 = ''04''"
    "pad 9 = ''09''" "pad 7 = ''07''"
    by code_simp+
  show ?thesis
    using formatDateTime_shape
        [of "Val (JStr ''2024-01-05T03:04:09'')" "\<lambda>x. ValidDate ?loc ?u" None ?loc ?u ?loc 7]
      formatDateTime_shape [of "Val (JStr ''soon'')" "\<lambda>x. InvalidDate" None]
      formatDateTime_shape
        [of "Val JNull" "\<lambda>x. InvalidDate" "Some \<lparr>utc = Some True, fallback = Some ''-''\<rparr>"]
    by (simp add: y p)
qed

section \<open>Properties of the wordlist normalisation\<close>

lemma cons_first_nonempty: "cons_first c xs \<noteq> []"
  by (cases xs) simp_all

lemma split_char_nonempty: "split_char sep t \<noteq> []"
  by (cases t) (simp_all add: cons_first_nonempty)

lemma split_lines_nonempty: "split_lines t \<noteq> []"
  by (cases t) (simp_all add: cons_first_nonempty)









section \<open>Properties of starting a scan\<close>

lemma press_Some: "press enabled handler = Some r \<longleftrightarrow> enabled \<and> handler = r"
  by (auto simp: press_def)

lemma press_None: "press enabled handler = None \<longleftrightarrow> \<not> enabled"
  by (simp add: press_def)

text \<open>
  C2, as stated, fails for port scans in \<open>viz-recon-main\<close>: its guard asks for a
  non-empty targets text, not for a non-empty targets list, so an authorized form whose
  targets text is a comma sends a request with no target.
\<close>

theorem port_scan_empty_targets_counterexample:
  "start_port_scan \<lparr>pf_targets = '','', pf_authorized = True, pf_useTargetsFile = False,
                    pf_usePortsFile = False\<rparr> None None
   = Some (Inr \<lparr>rq_path = ''/recon/ports/scan'', rq_authorized = True, rq_domain = None,
                rq_targets = Some [], rq_base_url = None, rq_wordlist = None,
                rq_wordlist_file = None\<rparr>)"
  by code_simp

text \<open>
  C2, amended. A scan request is sent only when the start button's guard holds, and the
  guard holds exactly when the form is authorized and its target field is non-empty: in
  \<open>reconx/ui\<close> a non-empty domain for subdomains, a non-empty targets list for ports,
  a non-empty base URL for dirs; in \<open>viz-recon-main\<close> a non-empty domain, a non-empty
  targets text (whose list of targets may still be empty) and a non-empty base URL. So
  no request is sent while \<open>authorized\<close> is false, every request sent carries
  \<open>authorized = true\<close>, and but for the port scans of \<open>viz-recon-main\<close> it carries
  a non-empty target.
\<close>

theorem scan_needs_authorization:
  "(valid k rform \<longleftrightarrow>
      ns_authorized rform \<and>
      (case k of
         subdomains \<Rightarrow> nonempty (ns_domain rform)
       | ports \<Rightarrow> (\<exists>ts. ns_targets rform = Some ts \<and> ts \<noteq> [])
       | dirs \<Rightarrow> nonempty (ns_base_url rform)))
   \<and> (start_scan k rform submitting fl \<noteq> None \<longleftrightarrow> valid k rform \<and> \<not> submitting)
   \<and> (start_subdomain_scan sform fl \<noteq> None \<longleftrightarrow> sf_authorized sform \<and> sf_domain sform \<noteq> [])
   \<and> (start_port_scan pform fl fl' \<noteq> None \<longleftrightarrow> pf_authorized pform \<and> pf_targets pform \<noteq> [])
   \<and> (start_dir_scan dform fl \<noteq> None \<longleftrightarrow> df_authorized dform \<and> df_base_url dform \<noteq> [])
   \<and> (start_scan k rform submitting fl = Some (Inr rq) \<longrightarrow>
        rq_authorized rq \<and>
        (case k of
           subdomains \<Rightarrow> nonempty (rq_domain rq)
         | ports \<Rightarrow> (\<exists>ts. rq_targets rq = Some ts \<and> ts \<noteq> [])
         | dirs \<Rightarrow> nonempty (rq_base_url rq)))
   \<and> (start_subdomain_scan sform fl = Some (Inr rq) \<longrightarrow>
        rq_authorized rq \<and> nonempty (rq_domain rq))
   \<and> (start_port_scan pform fl fl' = Some (Inr rq) \<longrightarrow> rq_authorized rq)
   \<and> (start_dir_scan dform fl = Some (Inr rq) \<longrightarrow>
        rq_authorized rq \<and> nonempty (rq_base_url rq))
   \<and> (\<not> ns_authorized rform \<longrightarrow> start_scan k rform submitting fl = None)
   \<and> (\<not> sf_authorized sform \<longrightarrow> start_subdomain_scan sform fl = None)
   \<and> (\<not> pf_authorized pform \<longrightarrow> start_port_scan pform fl fl' = None)
   \<and> (\<not> df_authorized dform \<longrightarrow> start_dir_scan dform fl = None)"
proof -
  have v: "valid k rform \<longleftrightarrow>
      ns_authorized rform \<and>
      (case k of
         subdomains \<Rightarrow> nonempty (ns_domain rform)
       | ports \<Rightarrow> (\<exists>ts. ns_targets rform = Some ts \<and> ts \<noteq> [])
       | dirs \<Rightarrow> nonempty (ns_base_url rform))"
    by (cases k) (auto simp: valid_def split: option.splits)
  have g1: "start_scan k rform submitting fl \<noteq> None \<longleftrightarrow> valid k rform \<and> \<not> submitting"
    by (simp add: start_scan_def press_None)
  have g2: "start_subdomain_scan sform fl \<noteq> None
      \<longleftrightarrow> sf_authorized sform \<and> sf_domain sform \<noteq> []"
    by (auto simp: start_subdomain_scan_def press_None)
  have g3: "start_port_scan pform fl fl' \<noteq> None
      \<longleftrightarrow> pf_authorized pform \<and> pf_targets pform \<noteq> []"
    by (auto simp: start_port_scan_def press_None)
  have g4: "start_dir_scan dform fl \<noteq> None
      \<longleftrightarrow> df_authorized dform \<and> df_base_url dform \<noteq> []"
    by (auto simp: start_dir_scan_def press_None)
  have r1: "rq_authorized rq \<and>
        (case k of
           subdomains \<Rightarrow> nonempty (rq_domain rq)
         | ports \<Rightarrow> (\<exists>ts. rq_targets rq = Some ts \<and> ts \<noteq> [])
         | dirs \<Rightarrow> nonempty (rq_base_url rq))"
    if "start_scan k rform submitting fl = Some (Inr rq)"
  proof -
    from that have ok: "valid k rform" and s: "submit k rform fl = Inr rq"
      by (simp_all add: start_scan_def press_Some)
    show ?thesis
    proof (cases "k = dirs \<and> ns_useUpload rform")
      case True
      with s obtain w where "fl = Some w"
        by (cases fl) (simp_all add: submit_def)
      with True s ok show ?thesis
        by (auto simp: submit_def valid_def nonempty_def split: option.splits)
    next
      case False
      with s have "rq_authorized rq = ns_authorized rform" "rq_domain rq = ns_domain rform"
        "rq_targets rq = ns_targets rform" "rq_base_url rq = ns_base_url rform"
        by (auto simp: submit_def)
      with ok v show ?thesis by (cases k) simp_all
    qed
  qed
  have r2: "rq_authorized rq \<and> nonempty (rq_domain rq)"
    if "start_subdomain_scan sform fl = Some (Inr rq)"
    using that
    by (auto simp: start_subdomain_scan_def press_Some handleSubdomainScan_def nonempty_def
        split: if_splits)
  have r3: "rq_authorized rq" if "start_port_scan pform fl fl' = Some (Inr rq)"
    using that
    by (auto simp: start_port_scan_def press_Some handlePortScan_def Let_def split: if_splits)
  have r4: "rq_authorized rq \<and> nonempty (rq_base_url rq)"
    if "start_dir_scan dform fl = Some (Inr rq)"
    using that
    by (auto simp: start_dir_scan_def press_Some handleDirScan_def nonempty_def
        split: if_splits option.splits)
  have n1: "\<not> ns_authorized rform \<longrightarrow> start_scan k rform submitting fl = None"
    by (simp add: start_scan_def press_None valid_def)
  have n2: "\<not> sf_authorized sform \<longrightarrow> start_subdomain_scan sform fl = None"
    by (simp add: start_subdomain_scan_def press_None)
  have n3: "\<not> pf_authorized pform \<longrightarrow> start_port_scan pform fl fl' = None"
    by (simp add: start_port_scan_def press_None)
  have n4: "\<not> df_authorized dform \<longrightarrow> start_dir_scan dform fl = None"
    by (simp add: start_dir_scan_def press_None)
  from v g1 g2 g3 g4 r1 r2 r3 r4 n1 n2 n3 n4 show ?thesis
    by blast
qed

theorem scan_needs_authorization_witness:
  "start_scan subdomains
     \<lparr>ns_authorized = False, ns_useUpload = False, ns_wordlistText = [],
       ns_domain = Some ''example.com'', ns_targets = None, ns_base_url = None\<rparr> False None
     = None
   \<and> start_subdomain_scan
       \<lparr>sf_domain = ''example.com'', sf_authorized = False, sf_useResolversFile = False\<rparr> None
     = None
   \<and> start_port_scan
       \<lparr>pf_targets = ''127.0.0.1'', pf_authorized = False, pf_useTargetsFile = False,
         pf_usePortsFile = False\<rparr> None None
     = None
   \<and> start_dir_scan
       \<lparr>df_base_url = ''http://t'', df_authorized = False, df_useUpload = False,
         df_wordlistText = []\<rparr> None
     = None
   \<and> start_scan subdomains
       \<lparr>ns_authorized = True, ns_useUpload = False, ns_wordlistText = [],
         ns_domain = Some ''example.com'', ns_targets = None, ns_base_url = None\<rparr> False None
     = Some (Inr \<lparr>rq_path = ''/api/recon/subdomains/scan'', rq_authorized = True,
                  rq_domain = Some ''example.com'', rq_targets = None, rq_base_url = None,
                  rq_wordlist = None, rq_wordlist_file = None\<rparr>)
   \<and> valid subdomains
       \<lparr>ns_authorized = True, ns_useUpload = False, ns_wordlistText = [],
         ns_domain = Some ''example.com'', ns_targets = None, ns_base_url = None\<rparr>"
proof -
  let ?no = "\<lparr>ns_authorized = False, ns_useUpload = False, ns_wordlistText = [],
       ns_domain = Some ''example.com'', ns_targets = None, ns_base_url = None\<rparr>"
  let ?yes = "\<lparr>ns_authorized = True, ns_useUpload = False, ns_wordlistText = [],
         ns_domain = Some ''example.com'', ns_targets = None, ns_base_url = None\<rparr>"
  let ?s = "\<lparr>sf_domain = ''example.com'', sf_authorized = False, sf_useResolversFile = False\<rparr>"
  let ?p = "\<lparr>pf_targets = ''127.0.0.1'', pf_authorized = False, pf_useTargetsFile = False,
         pf_usePortsFile = False\<rparr>"
  let ?d = "\<lparr>df_base_url = ''http://t'', df_authorized = False, df_useUpload = False,
         df_wordlistText = []\<rparr>"
  let ?rq = "\<lparr>rq_path = ''/api/recon/subdomains/scan'', rq_authorized = True,
                  rq_domain = Some ''example.com'', rq_targets = None, rq_base_url = None,
                  rq_wordlist = None, rq_wordlist_file = None\<rparr>"
  have sent: "start_scan subdomains ?yes False None = Some (Inr ?rq)"
    by code_simp
  have refused: "\<not> ns_authorized ?no" "\<not> sf_authorized ?s" "\<not> pf_authorized ?p"
    "\<not> df_authorized ?d"
    by simp_all
  from scan_needs_authorization
    [where k = subdomains and rform = ?no and submitting = False and fl = None
       and sform = ?s and pform = ?p and fl' = None and dform = ?d and rq = ?rq] refused
  have none: "start_scan subdomains ?no False None = None"
    "start_subdomain_scan ?s None = None"
    "start_port_scan ?p None None = None"
    "start_dir_scan ?d None = None"
    by blast+
  from scan_needs_authorization
    [where k = subdomains and rform = ?yes and submitting = False and fl = None
       and sform = ?s and pform = ?p and fl' = None and dform = ?d and rq = ?rq] sent
  have "valid subdomains ?yes"
    by blast
  with none sent show ?thesis
    by blast
qed

section \<open>Properties of the reachability indicator\<close>

text \<open>
  C7, as stated, fails in \<open>viz-recon-main\<close>: the indicator follows the success of
  \<open>fetchJson\<close>, which also needs the body of the metrics response to parse as JSON.
  Two runs whose metrics responses are both \<open>ok\<close> and whose health responses are
  both not \<open>ok\<close> end with different indicators when only one metrics body parses.
\<close>

theorem online_differs_with_same_ok_status_counterexample:
  "ok_status (Response \<lparr>ok = True, body_json = None :: metrics option\<rparr>)
     = ok_status (Response \<lparr>ok = True,
         body_json = Some \<lparr>findings_total = JNum 0, findings_per_min = JNum 0\<rparr>\<rparr>)
   \<and> isBackendOnline
        (fetchMetrics (Response \<lparr>ok = True, body_json = None\<rparr>)
           (Response \<lparr>ok = False, body_json = None :: unit option\<rparr>)
           \<lparr>d_metrics = None, d_jobs = [], isBackendOnline = False\<rparr>)
     \<noteq> isBackendOnline
        (fetchMetrics
           (Response \<lparr>ok = True,
              body_json = Some \<lparr>findings_total = JNum 0, findings_per_min = JNum 0\<rparr>\<rparr>)
           (Response \<lparr>ok = False, body_json = None :: unit option\<rparr>)
           \<lparr>d_metrics = None, d_jobs = [], isBackendOnline = False\<rparr>)"
  by (simp add: ok_status_def fetchMetrics_def fetchJson_def)

text \<open>
  C7, amended. The indicator is a function of the outcomes of the health and metrics
  requests alone. In \<open>reconx/ui\<close> it is the \<open>ok\<close> status of the health response,
  false when the request fails. In \<open>viz-recon-main\<close> it is true when the metrics
  request succeeds (a response that is \<open>ok\<close> and whose body parses as JSON), and
  otherwise it is the \<open>ok\<close> status of the health response. Two runs with the same
  outcomes end with the same indicator whatever the jobs and the state before, and
  refreshing the job list leaves the indicator as it is.
\<close>

theorem online_depends_on_responses_only:
  "check r online = ok_status r
   \<and> check r online = check r online'
   \<and> isBackendOnline (fetchMetrics m h st) = (fetchJson m \<noteq> None \<or> ok_status h)
   \<and> (fetchJson m \<noteq> None
        \<longleftrightarrow> (\<exists>resp. m = Response resp \<and> ok resp \<and> body_json resp \<noteq> None))
   \<and> isBackendOnline (fetchMetrics m h st) = isBackendOnline (fetchMetrics m h st')
   \<and> isBackendOnline (fetchJobs j st) = isBackendOnline st
   \<and> d_jobs (fetchMetrics m h st) = d_jobs st"
proof -
  have c: "check r online = ok_status r" "check r online = check r online'"
    by (simp_all add: check_def ok_status_def)
  have f: "isBackendOnline (fetchMetrics m h st) = (fetchJson m \<noteq> None \<or> ok_status h)" for st
    by (cases h) (auto simp: fetchMetrics_def ok_status_def split: option.splits)
  have s: "fetchJson m \<noteq> None
        \<longleftrightarrow> (\<exists>resp. m = Response resp \<and> ok resp \<and> body_json resp \<noteq> None)"
    by (cases m) (auto simp: fetchJson_def)
  have j: "isBackendOnline (fetchJobs j st) = isBackendOnline st"
    by (simp add: fetchJobs_def split: option.splits)
  have k: "d_jobs (fetchMetrics m h st) = d_jobs st"
    by (cases h) (auto simp: fetchMetrics_def split: option.splits)
  from c f [of st] f [of st'] s j k show ?thesis
    by simp
qed

theorem online_depends_on_responses_only_witness:
  "isBackendOnline
     (fetchMetrics (Response \<lparr>ok = False, body_json = None\<rparr>)
        (Response \<lparr>ok = True, body_json = None :: unit option\<rparr>)
        \<lparr>d_metrics = None,
          d_jobs = [\<lparr>id' = JNum 1, type' = dirs, state = failed, created_at = JUndefined,
                     targets = JUndefined, domain = JUndefined, base_url = JUndefined\<rparr>],
          isBackendOnline = False\<rparr>)
   \<and> isBackendOnline
     (fetchMetrics (Response \<lparr>ok = False, body_json = None\<rparr>)
        (Response \<lparr>ok = True, body_json = None :: unit option\<rparr>)
        \<lparr>d_metrics = None, d_jobs = [], isBackendOnline = False\<rparr>)
   \<and> \<not> check (NetworkError :: unit fetched) True"
  using online_depends_on_responses_only
    [where r = "NetworkError :: unit fetched" and online = True and online' = False
       and j = NetworkError
       and m = "Response \<lparr>ok = False, body_json = None\<rparr>"
       and h = "Response \<lparr>ok = True, body_json = None :: unit option\<rparr>"
       and st = "\<lparr>d_metrics = None,
          d_jobs = [\<lparr>id' = JNum 1, type' = dirs, state = failed, created_at = JUndefined,
                     targets = JUndefined, domain = JUndefined, base_url = JUndefined\<rparr>],
          isBackendOnline = False\<rparr>"
       and st' = "\<lparr>d_metrics = None, d_jobs = [], isBackendOnline = False\<rparr>"]
  by (auto simp: ok_status_def)

section \<open>Properties of the report\<close>


lemma length_rows_buildReportTable:
  "row \<in> set (rows (buildReportTable newDate j fs))
     \<Longrightarrow> length row = length (headers (buildReportTable newDate j fs))"
  by (auto simp: buildReportTable_def split: if_splits)



section \<open>Properties of the exported text\<close>

lemma split_char_without_sep: "sep \<notin> set x \<Longrightarrow> split_char sep x = [x]"
  by (induction x) auto

lemma split_char_at_sep:
  "sep \<notin> set x \<Longrightarrow> split_char sep (x @ sep # r) = x # split_char sep r"
  by (induction x) auto

lemma split_char_join:
  "xs \<noteq> [] \<Longrightarrow> \<forall>x \<in> set xs. sep \<notin> set x \<Longrightarrow> split_char sep (join [sep] xs) = xs"
proof (induction "[sep]" xs rule: join.induct)
  case 1
  then show ?case by simp
next
  case (2 x)
  then show ?case by (simp add: split_char_without_sep)
next
  case (3 x y ys)
  then show ?case by (simp add: split_char_at_sep)
qed

lemma set_join: "set (join sep xs) \<subseteq> set sep \<union> (\<Union>x \<in> set xs. set x)"
  by (induction sep xs rule: join.induct) auto

lemma is_digit_not_newline: "is_digit c \<Longrightarrow> c \<noteq> CHR 0x0A"
  by (auto simp: is_digit_def)

lemma decimal_int_no_newline: "CHR 0x0A \<notin> set (decimal_int i)"
  using decimal_digits is_digit_not_newline by (auto simp: decimal_int_def)

lemma pad_no_newline: "CHR 0x0A \<notin> set (pad n)"
  using pad_digits is_digit_not_newline by blast

lemma formatDateTime_no_newline: "CHR 0x0A \<notin> set (formatDateTime newDate v None)"
  by (auto simp: formatDateTime_def Let_def decimal_int_no_newline pad_no_newline
      split: jsdate.splits)

lemma headers_plain:
  "headers (buildReportTable newDate j fs) \<noteq> []
   \<and> (\<forall>h \<in> set (headers (buildReportTable newDate j fs)).
         CHR 0x09 \<notin> set h \<and> CHR 0x0A \<notin> set h)"
  by (cases "type' j") (simp_all add: buildReportTable_def)

lemma type_upper_no_newline: "CHR 0x0A \<notin> set (type_upper t)"
  by (cases t) (simp_all add: type_upper_def)

lemma join_tab_no_newline:
  assumes "\<forall>cell \<in> set row. CHR 0x0A \<notin> set cell"
  shows "CHR 0x0A \<notin> set (join [CHR 0x09] row)"
proof
  assume "CHR 0x0A \<in> set (join [CHR 0x09] row)"
  with set_join [of "[CHR 0x09]" row] have "CHR 0x0A \<in> set [CHR 0x09] \<union> (\<Union>x \<in> set row. set x)"
    by blast
  with assms show False by auto
qed

text \<open>
  C6, as stated, fails: the export joins the cells of a row with tabs and the rows with
  newlines without escaping either, so a finding whose title holds a tab comes back
  from the re-parse as a row of seven cells instead of six.
\<close>

theorem report_roundtrip_tab_counterexample:
  "reparse_report (exported_text (fst (exportTXT (\<lambda>x. InvalidDate)
      (ValidDate
         \<lparr>getFullYear = 2024, getMonth = 0, getDate = 5, getHours = 3, getMinutes = 4,
           getSeconds = 9\<rparr>
         \<lparr>getFullYear = 2024, getMonth = 0, getDate = 5, getHours = 3, getMinutes = 4,
           getSeconds = 9\<rparr>)
      (\<lambda>n. Some [empty_finding\<lparr>url := JStr ''http://t/a'', status := JNum 200,
                                 title := JStr (''a'' @ [CHR 0x09] @ ''b'')\<rparr>])
      \<lparr>id' = JNum 7, type' = dirs, state = completed, created_at = JUndefined,
        targets = JUndefined, domain = JUndefined, base_url = JStr ''http://t''\<rparr> 0)))
     = [[''URL'', ''Status'', ''Length'', ''Title'', ''Type'', ''Redirect''],
        [''http://t/a'', ''200'', [], ''a'', ''b'', [], []]]
   \<and> rows (buildReportTable (\<lambda>x. InvalidDate)
        \<lparr>id' = JNum 7, type' = dirs, state = completed, created_at = JUndefined,
          targets = JUndefined, domain = JUndefined, base_url = JStr ''http://t''\<rparr>
        [empty_finding\<lparr>url := JStr ''http://t/a'', status := JNum 200,
                         title := JStr (''a'' @ [CHR 0x09] @ ''b'')\<rparr>])
     = [[''http://t/a'', ''200'', [], ''a'' @ [CHR 0x09] @ ''b'', [], []]]
   \<and> tl (reparse_report (exported_text (fst (exportTXT (\<lambda>x. InvalidDate)
      (ValidDate
         \<lparr>getFullYear = 2024, getMonth = 0, getDate = 5, getHours = 3, getMinutes = 4,
           getSeconds = 9\<rparr>
         \<lparr>getFullYear = 2024, getMonth = 0, getDate = 5, getHours = 3, getMinutes = 4,
           getSeconds = 9\<rparr>)
      (\<lambda>n. Some [empty_finding\<lparr>url := JStr ''http://t/a'', status := JNum 200,
                                 title := JStr (''a'' @ [CHR 0x09] @ ''b'')\<rparr>])
      \<lparr>id' = JNum 7, type' = dirs, state = completed, created_at = JUndefined,
        targets = JUndefined, domain = JUndefined, base_url = JStr ''http://t''\<rparr> 0))))
     \<noteq> rows (buildReportTable (\<lambda>x. InvalidDate)
        \<lparr>id' = JNum 7, type' = dirs, state = completed, created_at = JUndefined,
          targets = JUndefined, domain = JUndefined, base_url = JStr ''http://t''\<rparr>
        [empty_finding\<lparr>url := JStr ''http://t/a'', status := JNum 200,
                         title := JStr (''a'' @ [CHR 0x09] @ ''b'')\<rparr>])"
  by code_simp

text \<open>
  C6, amended. When no cell of the report table holds a tab or a newline and the job
  label holds no newline, re-parsing the exported text (split into lines, the two
  preamble lines and the blank line dropped, each remaining line split at tabs) gives
  back the header row followed by the rows of the report table built from the fetched
  findings, cell for cell.
\<close>

theorem report_roundtrip:
  "findings_response requests = Some fs
   \<and> (\<forall>row \<in> set (rows (buildReportTable newDate j fs)).
        \<forall>cell \<in> set row. CHR 0x09 \<notin> set cell \<and> CHR 0x0A \<notin> set cell)
   \<and> CHR 0x0A \<notin> set (formatJobLabel newDate j)
   \<longrightarrow> reparse_report (exported_text (fst (exportTXT newDate now findings_response j requests)))
       = headers (buildReportTable newDate j fs) # rows (buildReportTable newDate j fs)"
proof
  let ?t = "buildReportTable newDate j fs"
  let ?l1 = "''# ReconX Report '' @ em_dash @ '' '' @ type_upper (type' j) @ '' ('' @
        formatJobLabel newDate j @ '')''"
  let ?l2 = "''Generated: '' @ formatDateTime newDate (DateObj now) None"
  let ?hl = "join [CHR 0x09] (headers ?t)"
  let ?rl = "map (\<lambda>row. join [CHR 0x09] row) (rows ?t)"
  assume a: "findings_response requests = Some fs
   \<and> (\<forall>row \<in> set (rows ?t). \<forall>cell \<in> set row. CHR 0x09 \<notin> set cell \<and> CHR 0x0A \<notin> set cell)
   \<and> CHR 0x0A \<notin> set (formatJobLabel newDate j)"
  then have exported: "exported_text (fst (exportTXT newDate now findings_response j requests))
      = join [CHR 0x0A] ([?l1, ?l2, [], ?hl] @ ?rl)"
    by (simp add: exportTXT_def exported_text_def report_lines_def)
  have n1: "CHR 0x0A \<notin> set ?l1"
    using a by (simp add: em_dash_def type_upper_no_newline)
  have n2: "CHR 0x0A \<notin> set ?l2"
    by (simp add: formatDateTime_no_newline)
  have n3: "CHR 0x0A \<notin> set ?hl"
    using headers_plain [of newDate j fs] by (intro join_tab_no_newline) blast
  have n4: "\<forall>l \<in> set ?rl. CHR 0x0A \<notin> set l"
    using a by (auto intro!: join_tab_no_newline)
  from n1 n2 n3 n4
  have "\<forall>l \<in> set ([?l1, ?l2, [], ?hl] @ ?rl). CHR 0x0A \<notin> set l"
    by auto
  then have "split_char (CHR 0x0A) (join [CHR 0x0A] ([?l1, ?l2, [], ?hl] @ ?rl))
      = [?l1, ?l2, [], ?hl] @ ?rl"
    by (intro split_char_join) simp_all
  with exported have parsed: "reparse_report
      (exported_text (fst (exportTXT newDate now findings_response j requests)))
      = split_char (CHR 0x09) ?hl # map (split_char (CHR 0x09)) ?rl"
    by (simp add: reparse_report_def)
  have h: "split_char (CHR 0x09) ?hl = headers ?t"
    using headers_plain [of newDate j fs] by (intro split_char_join) blast+
  have r: "split_char (CHR 0x09) (join [CHR 0x09] row) = row" if "row \<in> set (rows ?t)" for row
  proof (rule split_char_join)
    from that length_rows_buildReportTable [of row newDate j fs] headers_plain [of newDate j fs]
    show "row \<noteq> []" by auto
    from that a show "\<forall>x \<in> set row. CHR 0x09 \<notin> set x" by blast
  qed
  then have "map (split_char (CHR 0x09)) ?rl = rows ?t"
    by (simp add: map_idI)
  with parsed h
  show "reparse_report (exported_text (fst (exportTXT newDate now findings_response j requests)))
       = headers ?t # rows ?t"
    by simp
qed

theorem report_roundtrip_witness:
  "reparse_report (exported_text (fst (exportTXT (\<lambda>x. InvalidDate)
      (ValidDate
         \<lparr>getFullYear = 2024, getMonth = 0, getDate = 5, getHours = 3, getMinutes = 4,
           getSeconds = 9\<rparr>
         \<lparr>getFullYear = 2024, getMonth = 0, getDate = 5, getHours = 3, getMinutes = 4,
           getSeconds = 9\<rparr>)
      (\<lambda>n. Some [empty_finding\<lparr>target := JStr ''10.0.0.1'', port := JNum 22,
                                 status := JStr ''open'', banner := JStr ''SSH-2.0''\<rparr>,
                   empty_finding\<lparr>target := JStr ''10.0.0.1'', port := JNum 80,
                                 status := JStr ''closed''\<rparr>])
      \<lparr>id' = JNum 7, type' = ports, state = completed, created_at = JUndefined,
        targets = JArr [JStr ''10.0.0.1''], domain = JUndefined, base_url = JUndefined\<rparr> 0)))
     = [[''Target'', ''Port'', ''Status'', ''Banner''],
        [''10.0.0.1'', ''22'', ''open'', ''SSH-2.0''],
        [''10.0.0.1'', ''80'', ''closed'', []]]"
proof -
  let ?nd = "\<lambda>x :: jsval. InvalidDate"
  let ?j = "\<lparr>id' = JNum 7, type' = ports, state = completed, created_at = JUndefined,
        targets = JArr [JStr ''10.0.0.1''], domain = JUndefined, base_url = JUndefined\<rparr>"
  let ?fs = "[empty_finding\<lparr>target := JStr ''10.0.0.1'', port := JNum 22,
                                 status := JStr ''open'', banner := JStr ''SSH-2.0''\<rparr>,
                   empty_finding\<lparr>target := JStr ''10.0.0.1'', port := JNum 80,
                                 status := JStr ''closed''\<rparr>]"
  have r: "rows (buildReportTable ?nd ?j ?fs)
      = [[''10.0.0.1'', ''22'', ''open'', ''SSH-2.0''], [''10.0.0.1'', ''80'', ''closed'', []]]"
    by code_simp
  have h: "headers (buildReportTable ?nd ?j ?fs) = [''Target'', ''Port'', ''Status'', ''Banner'']"
    by code_simp
  have fetched: "(\<lambda>n :: nat. Some ?fs) 0 = Some ?fs"
    by simp
  have cells: "\<forall>row \<in> set (rows (buildReportTable ?nd ?j ?fs)).
        \<forall>cell \<in> set row. CHR 0x09 \<notin> set cell \<and> CHR 0x0A \<notin> set cell"
    unfolding r by simp
  have label: "CHR 0x0A \<notin> set (formatJobLabel ?nd ?j)"
    by code_simp
  from report_roundtrip
    [where findings_response = "\<lambda>n. Some ?fs" and requests = 0 and fs = ?fs and newDate = ?nd
       and j = ?j] fetched cells label
  show ?thesis
    unfolding r h by blast
qed

end
